theory Spec2Isabelle
  imports Complex_Main
begin

section \<open>The installer front end of IndexTTS (App.tsx)\<close>

text \<open>
  The component \<^verbatim>\<open>App\<close> keeps seven React state variables and talks to the host
  process through \<^verbatim>\<open>invoke\<close>. Every handler of the component is embedded as a
  function on a record of those variables. An \<^verbatim>\<open>await\<close> splits a handler into the
  part that runs until the call is issued and the part that runs when the promise
  settles; the environment decides when (and with what) a promise settles and when an
  interval timer fires, so these are events of the model.

  Strings are byte lists: the user-visible messages of the source are Chinese text and are
  written here as their UTF-8 bytes, with the Unicode code points in the text before each.
  A value thrown by \<^verbatim>\<open>invoke\<close> enters the model as the string that the template
  literal \<^verbatim>\<open>${error}\<close> renders.
\<close>

subsection \<open>Data (the three interfaces of the source)\<close>

record SystemInfo =
  os :: string
  os_version :: string
  cpu_name :: string
  cpu_cores :: int
  total_memory :: int
  available_memory :: int
  total_disk_space :: int
  available_disk_space :: int
  gpu_info :: "string list"
  python_version :: "string option"
  git_version :: "string option"
  cuda_available :: bool

text \<open>
  \<^verbatim>\<open>progress\<close> is a JavaScript number that arrives through JSON, so it is finite; every
  finite double is a rational number, and the comparisons of the source are exact on them.
\<close>

record InstallProgress =
  step :: string
  progress :: rat
  message :: string
  is_complete :: bool
  has_error :: bool

record InstallConfig =
  install_path :: string
  model_type :: string
  use_gpu :: bool

subsection \<open>Message literals\<close>

text \<open>code points: U+6B64 U+5B89 U+88C5 U+5668 U+4EC5 U+652F U+6301 U+684C U+9762 U+5E94 U+7528 U+73AF U+5883 U+FF0C U+4E0D U+652F U+6301 W e b U+6D4F U+89C8 U+5668 U+8FD0 U+884C U+3002 U+8BF7 U+4E0B U+8F7D U+684C U+9762 U+7248 U+672C U+3002\<close>

definition web_env_message :: string where
  "web_env_message =
    [CHR 0xE6, CHR 0xAD, CHR 0xA4, CHR 0xE5, CHR 0xAE, CHR 0x89, CHR 0xE8, CHR 0xA3, CHR 0x85,
     CHR 0xE5, CHR 0x99, CHR 0xA8, CHR 0xE4, CHR 0xBB, CHR 0x85, CHR 0xE6, CHR 0x94, CHR 0xAF,
     CHR 0xE6, CHR 0x8C, CHR 0x81, CHR 0xE6, CHR 0xA1, CHR 0x8C, CHR 0xE9, CHR 0x9D, CHR 0xA2,
     CHR 0xE5, CHR 0xBA, CHR 0x94, CHR 0xE7, CHR 0x94, CHR 0xA8, CHR 0xE7, CHR 0x8E, CHR 0xAF,
     CHR 0xE5, CHR 0xA2, CHR 0x83, CHR 0xEF, CHR 0xBC, CHR 0x8C, CHR 0xE4, CHR 0xB8, CHR 0x8D,
     CHR 0xE6, CHR 0x94, CHR 0xAF, CHR 0xE6, CHR 0x8C, CHR 0x81, CHR 0x57, CHR 0x65, CHR 0x62,
     CHR 0xE6, CHR 0xB5, CHR 0x8F, CHR 0xE8, CHR 0xA7, CHR 0x88, CHR 0xE5, CHR 0x99, CHR 0xA8,
     CHR 0xE8, CHR 0xBF, CHR 0x90, CHR 0xE8, CHR 0xA1, CHR 0x8C, CHR 0xE3, CHR 0x80, CHR 0x82,
     CHR 0xE8, CHR 0xAF, CHR 0xB7, CHR 0xE4, CHR 0xB8, CHR 0x8B, CHR 0xE8, CHR 0xBD, CHR 0xBD,
     CHR 0xE6, CHR 0xA1, CHR 0x8C, CHR 0xE9, CHR 0x9D, CHR 0xA2, CHR 0xE7, CHR 0x89, CHR 0x88,
     CHR 0xE6, CHR 0x9C, CHR 0xAC, CHR 0xE3, CHR 0x80, CHR 0x82]"

text \<open>code points: U+7CFB U+7EDF U+68C0 U+6D4B U+5931 U+8D25 : SP\<close>

definition detect_failed_prefix :: string where
  "detect_failed_prefix =
    [CHR 0xE7, CHR 0xB3, CHR 0xBB, CHR 0xE7, CHR 0xBB, CHR 0x9F, CHR 0xE6, CHR 0xA3, CHR 0x80,
     CHR 0xE6, CHR 0xB5, CHR 0x8B, CHR 0xE5, CHR 0xA4, CHR 0xB1, CHR 0xE8, CHR 0xB4, CHR 0xA5,
     CHR 0x3A, CHR 0x20]"

text \<open>code points: U+7CFB U+7EDF U+4FE1 U+606F U+672A U+77E5\<close>

definition unknown_message :: string where
  "unknown_message =
    [CHR 0xE7, CHR 0xB3, CHR 0xBB, CHR 0xE7, CHR 0xBB, CHR 0x9F, CHR 0xE4, CHR 0xBF, CHR 0xA1,
     CHR 0xE6, CHR 0x81, CHR 0xAF, CHR 0xE6, CHR 0x9C, CHR 0xAA, CHR 0xE7, CHR 0x9F, CHR 0xA5]"

text \<open>code points: U+5185 U+5B58 U+4E0D U+8DB3 8 G B U+FF0C U+53EF U+80FD U+5F71 U+54CD U+6027 U+80FD\<close>

definition issue_memory :: string where
  "issue_memory =
    [CHR 0xE5, CHR 0x86, CHR 0x85, CHR 0xE5, CHR 0xAD, CHR 0x98, CHR 0xE4, CHR 0xB8, CHR 0x8D,
     CHR 0xE8, CHR 0xB6, CHR 0xB3, CHR 0x38, CHR 0x47, CHR 0x42, CHR 0xEF, CHR 0xBC, CHR 0x8C,
     CHR 0xE5, CHR 0x8F, CHR 0xAF, CHR 0xE8, CHR 0x83, CHR 0xBD, CHR 0xE5, CHR 0xBD, CHR 0xB1,
     CHR 0xE5, CHR 0x93, CHR 0x8D, CHR 0xE6, CHR 0x80, CHR 0xA7, CHR 0xE8, CHR 0x83, CHR 0xBD]"

text \<open>code points: U+53EF U+7528 U+78C1 U+76D8 U+7A7A U+95F4 U+4E0D U+8DB3 1 0 G B\<close>

definition issue_disk :: string where
  "issue_disk =
    [CHR 0xE5, CHR 0x8F, CHR 0xAF, CHR 0xE7, CHR 0x94, CHR 0xA8, CHR 0xE7, CHR 0xA3, CHR 0x81,
     CHR 0xE7, CHR 0x9B, CHR 0x98, CHR 0xE7, CHR 0xA9, CHR 0xBA, CHR 0xE9, CHR 0x97, CHR 0xB4,
     CHR 0xE4, CHR 0xB8, CHR 0x8D, CHR 0xE8, CHR 0xB6, CHR 0xB3, CHR 0x31, CHR 0x30, CHR 0x47,
     CHR 0x42]"

text \<open>code points: U+672A U+68C0 U+6D4B U+5230 P y t h o n\<close>

definition issue_python :: string where
  "issue_python =
    [CHR 0xE6, CHR 0x9C, CHR 0xAA, CHR 0xE6, CHR 0xA3, CHR 0x80, CHR 0xE6, CHR 0xB5, CHR 0x8B,
     CHR 0xE5, CHR 0x88, CHR 0xB0, CHR 0x50, CHR 0x79, CHR 0x74, CHR 0x68, CHR 0x6F, CHR 0x6E]"

text \<open>code points: U+672A U+68C0 U+6D4B U+5230 G i t\<close>

definition issue_git :: string where
  "issue_git =
    [CHR 0xE6, CHR 0x9C, CHR 0xAA, CHR 0xE6, CHR 0xA3, CHR 0x80, CHR 0xE6, CHR 0xB5, CHR 0x8B,
     CHR 0xE5, CHR 0x88, CHR 0xB0, CHR 0x47, CHR 0x69, CHR 0x74]"

text \<open>code points: U+7CFB U+7EDF U+73AF U+5883 U+826F U+597D U+FF0C U+53EF U+4EE5 U+5F00 U+59CB U+5B89 U+88C5\<close>

definition good_message :: string where
  "good_message =
    [CHR 0xE7, CHR 0xB3, CHR 0xBB, CHR 0xE7, CHR 0xBB, CHR 0x9F, CHR 0xE7, CHR 0x8E, CHR 0xAF,
     CHR 0xE5, CHR 0xA2, CHR 0x83, CHR 0xE8, CHR 0x89, CHR 0xAF, CHR 0xE5, CHR 0xA5, CHR 0xBD,
     CHR 0xEF, CHR 0xBC, CHR 0x8C, CHR 0xE5, CHR 0x8F, CHR 0xAF, CHR 0xE4, CHR 0xBB, CHR 0xA5,
     CHR 0xE5, CHR 0xBC, CHR 0x80, CHR 0xE5, CHR 0xA7, CHR 0x8B, CHR 0xE5, CHR 0xAE, CHR 0x89,
     CHR 0xE8, CHR 0xA3, CHR 0x85]"

text \<open>code points: U+68C0 U+6D4B U+5230 U+95EE U+9898 : SP\<close>

definition warning_prefix :: string where
  "warning_prefix =
    [CHR 0xE6, CHR 0xA3, CHR 0x80, CHR 0xE6, CHR 0xB5, CHR 0x8B, CHR 0xE5, CHR 0x88, CHR 0xB0,
     CHR 0xE9, CHR 0x97, CHR 0xAE, CHR 0xE9, CHR 0xA2, CHR 0x98, CHR 0x3A, CHR 0x20]"

text \<open>code points: U+7CFB U+7EDF U+73AF U+5883 U+4E0D U+6EE1 U+8DB3 U+8981 U+6C42 : SP\<close>

definition error_prefix :: string where
  "error_prefix =
    [CHR 0xE7, CHR 0xB3, CHR 0xBB, CHR 0xE7, CHR 0xBB, CHR 0x9F, CHR 0xE7, CHR 0x8E, CHR 0xAF,
     CHR 0xE5, CHR 0xA2, CHR 0x83, CHR 0xE4, CHR 0xB8, CHR 0x8D, CHR 0xE6, CHR 0xBB, CHR 0xA1,
     CHR 0xE8, CHR 0xB6, CHR 0xB3, CHR 0xE8, CHR 0xA6, CHR 0x81, CHR 0xE6, CHR 0xB1, CHR 0x82,
     CHR 0x3A, CHR 0x20]"

text \<open>code points: U+5B89 U+88C5 U+529F U+80FD U+4EC5 U+5728 U+684C U+9762 U+5E94 U+7528 U+4E2D U+53EF U+7528 U+FF0C W e b U+73AF U+5883 U+4E0D U+652F U+6301 U+5B89 U+88C5 U+3002\<close>

definition web_alert :: string where
  "web_alert =
    [CHR 0xE5, CHR 0xAE, CHR 0x89, CHR 0xE8, CHR 0xA3, CHR 0x85, CHR 0xE5, CHR 0x8A, CHR 0x9F,
     CHR 0xE8, CHR 0x83, CHR 0xBD, CHR 0xE4, CHR 0xBB, CHR 0x85, CHR 0xE5, CHR 0x9C, CHR 0xA8,
     CHR 0xE6, CHR 0xA1, CHR 0x8C, CHR 0xE9, CHR 0x9D, CHR 0xA2, CHR 0xE5, CHR 0xBA, CHR 0x94,
     CHR 0xE7, CHR 0x94, CHR 0xA8, CHR 0xE4, CHR 0xB8, CHR 0xAD, CHR 0xE5, CHR 0x8F, CHR 0xAF,
     CHR 0xE7, CHR 0x94, CHR 0xA8, CHR 0xEF, CHR 0xBC, CHR 0x8C, CHR 0x57, CHR 0x65, CHR 0x62,
     CHR 0xE7, CHR 0x8E, CHR 0xAF, CHR 0xE5, CHR 0xA2, CHR 0x83, CHR 0xE4, CHR 0xB8, CHR 0x8D,
     CHR 0xE6, CHR 0x94, CHR 0xAF, CHR 0xE6, CHR 0x8C, CHR 0x81, CHR 0xE5, CHR 0xAE, CHR 0x89,
     CHR 0xE8, CHR 0xA3, CHR 0x85, CHR 0xE3, CHR 0x80, CHR 0x82]"

text \<open>code points: U+5B89 U+88C5 U+5931 U+8D25 : SP\<close>

definition install_failed_prefix :: string where
  "install_failed_prefix =
    [CHR 0xE5, CHR 0xAE, CHR 0x89, CHR 0xE8, CHR 0xA3, CHR 0x85, CHR 0xE5, CHR 0xA4, CHR 0xB1,
     CHR 0xE8, CHR 0xB4, CHR 0xA5, CHR 0x3A, CHR 0x20]"

text \<open>code points: U+83B7 U+53D6 U+5B89 U+88C5 U+8FDB U+5EA6 U+5931 U+8D25 : SP\<close>

definition progress_failed_prefix :: string where
  "progress_failed_prefix =
    [CHR 0xE8, CHR 0x8E, CHR 0xB7, CHR 0xE5, CHR 0x8F, CHR 0x96, CHR 0xE5, CHR 0xAE, CHR 0x89,
     CHR 0xE8, CHR 0xA3, CHR 0x85, CHR 0xE8, CHR 0xBF, CHR 0x9B, CHR 0xE5, CHR 0xBA, CHR 0xA6,
     CHR 0xE5, CHR 0xA4, CHR 0xB1, CHR 0xE8, CHR 0xB4, CHR 0xA5, CHR 0x3A, CHR 0x20]"

text \<open>code points: U+542F U+52A8 U+5B89 U+88C5 U+5931 U+8D25 : SP\<close>

definition start_failed_prefix :: string where
  "start_failed_prefix =
    [CHR 0xE5, CHR 0x90, CHR 0xAF, CHR 0xE5, CHR 0x8A, CHR 0xA8, CHR 0xE5, CHR 0xAE, CHR 0x89,
     CHR 0xE8, CHR 0xA3, CHR 0x85, CHR 0xE5, CHR 0xA4, CHR 0xB1, CHR 0xE8, CHR 0xB4, CHR 0xA5,
     CHR 0x3A, CHR 0x20]"

subsection \<open>getSystemStatus\<close>

text \<open>
  \<^verbatim>\<open>!systemInfo.python_version\<close> is true for a missing field and also for the empty
  string, the only falsy string of JavaScript.
\<close>

definition falsy :: "string option \<Rightarrow> bool" where
  "falsy v = (case v of None \<Rightarrow> True | Some t \<Rightarrow> t = [])"

text \<open>\<^verbatim>\<open>Array.prototype.join\<close> on an array of strings.\<close>

fun join :: "string \<Rightarrow> string list \<Rightarrow> string" where
  "join sep [] = []"
| "join sep [x] = x"
| "join sep (x # y # ys) = x @ sep @ join sep (y # ys)"

text \<open>The local array \<^verbatim>\<open>issues\<close> after the four \<^verbatim>\<open>push\<close> statements.\<close>

definition collect_issues :: "SystemInfo \<Rightarrow> string list" where
  "collect_issues info =
    (let issues = [];
         issues = (if total_memory info < 8 * 1024 * 1024 * 1024
                   then issues @ [issue_memory] else issues);
         issues = (if available_disk_space info < 10 * 1024 * 1024 * 1024
                   then issues @ [issue_disk] else issues);
         issues = (if falsy (python_version info) then issues @ [issue_python] else issues);
         issues = (if falsy (git_version info) then issues @ [issue_git] else issues)
     in issues)"

text \<open>The result object \<^verbatim>\<open>{ status, message }\<close> is the pair (status, message).\<close>

definition getSystemStatus :: "SystemInfo option \<Rightarrow> string \<times> string" where
  "getSystemStatus systemInfo =
    (case systemInfo of
       None \<Rightarrow> (''unknown'', unknown_message)
     | Some info \<Rightarrow>
        (let issues = collect_issues info in
         if length issues = 0 then (''good'', good_message)
         else if length issues \<le> 2 then (''warning'', warning_prefix @ join '', '' issues)
         else (''error'', error_prefix @ join '', '' issues)))"

subsection \<open>Component state\<close>

text \<open>The commands of the host process that the component invokes, with their arguments.\<close>

datatype host_call =
    GetDefaultInstallPath
  | GetSystemInfo
  | StartInstallation InstallConfig
  | GetInstallationProgress

text \<open>
  The first seven fields are the \<^verbatim>\<open>useState\<close> variables of the component, under
  their names. The others record what the component has done to its surroundings: whether
  the mount effect has run, the calls issued so far (oldest first), the alerts shown, the
  promises that have not settled yet, and the interval timers that are armed. An interval
  is known by the identifier \<^verbatim>\<open>setInterval\<close> returned, a fresh number each time; an
  outstanding progress call remembers the identifier its callback closed over.
\<close>

record App =
  systemInfo :: "SystemInfo option"
  loading :: bool
  installing :: bool
  isWebEnvironment :: bool
  installProgress :: InstallProgress
  error :: "string option"
  installConfig :: InstallConfig
  mounted :: bool
  calls :: "host_call list"
  alerts :: "string list"
  probe_pending :: nat
  path_pending :: nat
  info_pending :: nat
  start_pending :: nat
  poll_pending :: "nat list"
  intervals :: "nat list"
  next_interval :: nat

definition idle_progress :: InstallProgress where
  "idle_progress =
    \<lparr>step = ''idle'', progress = 0, message = [], is_complete = False, has_error = False\<rparr>"

definition initial :: App where
  "initial =
    \<lparr>systemInfo = None, loading = True, installing = False, isWebEnvironment = False,
     installProgress = idle_progress, error = None,
     installConfig =
       \<lparr>install_path = ''/Users/Shared/IndexTTS'', model_type = ''base'', use_gpu = False\<rparr>,
     mounted = False, calls = [], alerts = [], probe_pending = 0, path_pending = 0,
     info_pending = 0, start_pending = 0, poll_pending = [], intervals = [],
     next_interval = 0\<rparr>"

subsection \<open>Handlers\<close>

text \<open>\<^verbatim>\<open>checkSystemInfo\<close>, up to its \<^verbatim>\<open>await\<close> and from there on.\<close>

definition checkSystemInfo_call :: "App \<Rightarrow> App" where
  "checkSystemInfo_call s =
    s\<lparr>loading := True, error := None, calls := calls s @ [GetSystemInfo],
      info_pending := Suc (info_pending s)\<rparr>"

definition checkSystemInfo_settled :: "string + SystemInfo \<Rightarrow> App \<Rightarrow> App" where
  "checkSystemInfo_settled r s =
    (case r of
       Inr info \<Rightarrow> s\<lparr>systemInfo := Some info, loading := False\<rparr>
     | Inl err \<Rightarrow> s\<lparr>error := Some (detect_failed_prefix @ err), loading := False\<rparr>)"

text \<open>
  The mount effect: \<^verbatim>\<open>checkEnvironment\<close> probes the host with
  \<^verbatim>\<open>get_default_install_path\<close>. When the probe resolves, \<^verbatim>\<open>checkSystemInfo\<close>
  and \<^verbatim>\<open>setDefaultPath\<close> are started without being awaited.
\<close>

definition checkEnvironment_call :: "App \<Rightarrow> App" where
  "checkEnvironment_call s =
    s\<lparr>calls := calls s @ [GetDefaultInstallPath], probe_pending := Suc (probe_pending s)\<rparr>"

definition setDefaultPath_call :: "App \<Rightarrow> App" where
  "setDefaultPath_call s =
    s\<lparr>calls := calls s @ [GetDefaultInstallPath], path_pending := Suc (path_pending s)\<rparr>"

definition setDefaultPath_settled :: "string + string \<Rightarrow> App \<Rightarrow> App" where
  "setDefaultPath_settled r s =
    (case r of
       Inr defaultPath \<Rightarrow> s\<lparr>installConfig := (installConfig s)\<lparr>install_path := defaultPath\<rparr>\<rparr>
     | Inl err \<Rightarrow> s)"

definition checkEnvironment_settled :: "string + string \<Rightarrow> App \<Rightarrow> App" where
  "checkEnvironment_settled r s =
    (case r of
       Inr _ \<Rightarrow> setDefaultPath_call (checkSystemInfo_call (s\<lparr>isWebEnvironment := False\<rparr>))
     | Inl err \<Rightarrow> s\<lparr>isWebEnvironment := True, error := Some web_env_message, loading := False\<rparr>)"

text \<open>
  \<^verbatim>\<open>startInstallation\<close>: the guard, the two state updates and the call; then either
  \<^verbatim>\<open>setInterval\<close> or the \<^verbatim>\<open>catch\<close> block.
\<close>

definition startInstallation_call :: "App \<Rightarrow> App" where
  "startInstallation_call s =
    (if isWebEnvironment s then s\<lparr>alerts := alerts s @ [web_alert]\<rparr>
     else s\<lparr>installing := True, error := None,
            calls := calls s @ [StartInstallation (installConfig s)],
            start_pending := Suc (start_pending s)\<rparr>)"

definition startInstallation_settled :: "string + unit \<Rightarrow> App \<Rightarrow> App" where
  "startInstallation_settled r s =
    (case r of
       Inr _ \<Rightarrow> s\<lparr>intervals := intervals s @ [next_interval s],
                  next_interval := Suc (next_interval s)\<rparr>
     | Inl err \<Rightarrow> s\<lparr>installing := False, error := Some (start_failed_prefix @ err)\<rparr>)"

text \<open>
  The callback given to \<^verbatim>\<open>setInterval\<close>. It is an async function: each firing of
  the timer issues \<^verbatim>\<open>get_installation_progress\<close> at once, whether or not an earlier
  call is still outstanding. \<^verbatim>\<open>progressInterval\<close> is the identifier the callback
  closed over.
\<close>

definition interval_callback_call :: "nat \<Rightarrow> App \<Rightarrow> App" where
  "interval_callback_call progressInterval s =
    s\<lparr>calls := calls s @ [GetInstallationProgress],
      poll_pending := poll_pending s @ [progressInterval]\<rparr>"

definition interval_callback_settled :: "nat \<Rightarrow> string + InstallProgress \<Rightarrow> App \<Rightarrow> App" where
  "interval_callback_settled progressInterval r s =
    (case r of
       Inr p \<Rightarrow>
        (let s = s\<lparr>installProgress := p\<rparr> in
         if is_complete p \<or> has_error p then
           (let s = s\<lparr>intervals := removeAll progressInterval (intervals s),
                       installing := False\<rparr>
            in if has_error p then s\<lparr>error := Some (install_failed_prefix @ message p)\<rparr>
               else s)
         else s)
     | Inl err \<Rightarrow>
         s\<lparr>intervals := removeAll progressInterval (intervals s), installing := False,
           error := Some (progress_failed_prefix @ err)\<rparr>)"

text \<open>The \<^verbatim>\<open>onClick\<close> of the button in the failure panel.\<close>

definition reset_click :: "App \<Rightarrow> App" where
  "reset_click s = s\<lparr>installing := False, installProgress := idle_progress\<rparr>"

subsection \<open>What is rendered\<close>

text \<open>The constant \<^verbatim>\<open>systemStatus\<close> computed on every render.\<close>

definition systemStatus :: "App \<Rightarrow> string \<times> string" where
  "systemStatus s =
    (if systemInfo s \<noteq> None then getSystemStatus (systemInfo s) else (''unknown'', []))"

text \<open>
  The installation card shows the configuration form and the start button when
  \<^verbatim>\<open>!installing\<close>, and the progress view otherwise. The failure panel, with the reset
  button, is part of the progress view and is shown when \<^verbatim>\<open>installProgress.has_error\<close>.
\<close>

definition form_rendered :: "App \<Rightarrow> bool" where
  "form_rendered s = (\<not> installing s)"

definition start_disabled :: "App \<Rightarrow> bool" where
  "start_disabled s =
    (systemInfo s = None \<or> fst (systemStatus s) = ''error'' \<or> isWebEnvironment s
     \<or> installing s)"

definition reset_rendered :: "App \<Rightarrow> bool" where
  "reset_rendered s = (installing s \<and> has_error (installProgress s))"

text \<open>The three \<^verbatim>\<open>option\<close> elements of the model selector and their values.\<close>

datatype model_option = Standard | Large | Small

fun option_value :: "model_option \<Rightarrow> string" where
  "option_value Standard = ''standard''"
| "option_value Large = ''large''"
| "option_value Small = ''small''"

subsection \<open>Events\<close>

text \<open>
  What can happen to the component: the mount effect, a promise settling (\<open>Inl\<close> is a
  rejection, with the rendered error; \<open>Inr\<close> the resolved value), a user action on a
  control, a timer firing. A control that is not rendered, or is disabled, receives no
  event; a promise that was never issued does not settle; a cleared interval does not
  fire. Outstanding progress calls may settle in any order: the event names the position
  of the call among the outstanding ones.
\<close>

datatype event =
    Mount
  | ProbeSettled "string + string"
  | DefaultPathSettled "string + string"
  | SystemInfoSettled "string + SystemInfo"
  | ClickRecheck
  | ChangeInstallPath string
  | ChangeModelType model_option
  | ChangeUseGpu bool
  | ClickStart
  | StartSettled "string + unit"
  | Tick nat
  | ProgressSettled nat "string + InstallProgress"
  | ClickReset

fun dispatch :: "event \<Rightarrow> App \<Rightarrow> App" where
  "dispatch Mount s =
    (if mounted s then s else checkEnvironment_call (s\<lparr>mounted := True\<rparr>))"
| "dispatch (ProbeSettled r) s =
    (if probe_pending s = 0 then s
     else checkEnvironment_settled r (s\<lparr>probe_pending := probe_pending s - 1\<rparr>))"
| "dispatch (DefaultPathSettled r) s =
    (if path_pending s = 0 then s
     else setDefaultPath_settled r (s\<lparr>path_pending := path_pending s - 1\<rparr>))"
| "dispatch (SystemInfoSettled r) s =
    (if info_pending s = 0 then s
     else checkSystemInfo_settled r (s\<lparr>info_pending := info_pending s - 1\<rparr>))"
| "dispatch ClickRecheck s = (if loading s then s else checkSystemInfo_call s)"
| "dispatch (ChangeInstallPath v) s =
    (if form_rendered s then s\<lparr>installConfig := (installConfig s)\<lparr>install_path := v\<rparr>\<rparr>
     else s)"
| "dispatch (ChangeModelType v) s =
    (if form_rendered s
     then s\<lparr>installConfig := (installConfig s)\<lparr>model_type := option_value v\<rparr>\<rparr>
     else s)"
| "dispatch (ChangeUseGpu v) s =
    (if form_rendered s then s\<lparr>installConfig := (installConfig s)\<lparr>use_gpu := v\<rparr>\<rparr>
     else s)"
| "dispatch ClickStart s =
    (if form_rendered s \<and> \<not> start_disabled s then startInstallation_call s else s)"
| "dispatch (StartSettled r) s =
    (if start_pending s = 0 then s
     else startInstallation_settled r (s\<lparr>start_pending := start_pending s - 1\<rparr>))"
| "dispatch (Tick t) s =
    (if t \<in> set (intervals s) then interval_callback_call t s else s)"
| "dispatch (ProgressSettled k r) s =
    (if k < length (poll_pending s)
     then interval_callback_settled (poll_pending s ! k) r
            (s\<lparr>poll_pending := take k (poll_pending s) @ drop (Suc k) (poll_pending s)\<rparr>)
     else s)"
| "dispatch ClickReset s = (if reset_rendered s then reset_click s else s)"

fun run :: "event list \<Rightarrow> App \<Rightarrow> App" where
  "run [] s = s"
| "run (e # es) s = run es (dispatch e s)"

text \<open>The number of progress calls among the calls issued.\<close>

definition polls :: "App \<Rightarrow> nat" where
  "polls s = length (filter (\<lambda>c. c = GetInstallationProgress) (calls s))"

subsection \<open>The five installation steps of the progress view\<close>

text \<open>
  The array literal mapped over in the progress view. Only \<^verbatim>\<open>key\<close> takes part in
  what is computed; the label and the icon of a step are display text. The thresholds
  \<^verbatim>\<open>(index / 5) * 100\<close> are computed in doubles, where they come out as exactly
  0, 20, 40, 60 and 80, the values of the same expression over the rationals.
\<close>

definition step_keys :: "string list" where
  "step_keys = [''preparing'', ''downloading'', ''models'', ''dependencies'', ''configuring'']"

definition isActive :: "InstallProgress \<Rightarrow> string \<Rightarrow> bool" where
  "isActive p key = (step p = key)"

definition isCompleted :: "InstallProgress \<Rightarrow> nat \<Rightarrow> bool" where
  "isCompleted p index = (progress p > (of_nat index / 5) * 100)"

definition render_steps :: "InstallProgress \<Rightarrow> (string \<times> bool \<times> bool) list" where
  "render_steps p =
    map (\<lambda>(index, key). (key, isActive p key, isCompleted p index)) (enumerate 0 step_keys)"

subsection \<open>Bookkeeping invariant\<close>

text \<open>
  Interval identifiers are handed out in increasing order, so every armed interval and
  every outstanding progress call carries an identifier below the next one to be handed
  out. The initial state satisfies this and every event preserves it.
\<close>

definition consistent :: "App \<Rightarrow> bool" where
  "consistent s =
    (list_all (\<lambda>t. t < next_interval s) (intervals s)
     \<and> list_all (\<lambda>t. t < next_interval s) (poll_pending s))"

subsection \<open>Example inputs\<close>

definition good_info :: SystemInfo where
  "good_info =
    \<lparr>os = ''macOS'', os_version = ''14.5'', cpu_name = ''Apple M1'', cpu_cores = 8,
     total_memory = 17179869184, available_memory = 8589934592,
     total_disk_space = 500000000000, available_disk_space = 200000000000,
     gpu_info = [''Apple M1''], python_version = Some ''3.11.4'',
     git_version = Some ''2.40.0'', cuda_available = False\<rparr>"

definition empty_python_info :: SystemInfo where
  "empty_python_info = good_info\<lparr>python_version := Some []\<rparr>"


definition report_100 :: InstallProgress where
  "report_100 =
    \<lparr>step = ''completed'', progress = 100, message = ''done'', is_complete = True,
     has_error = False\<rparr>"

definition report_failed :: InstallProgress where
  "report_failed =
    \<lparr>step = ''models'', progress = 55, message = ''disk full'', is_complete = False,
     has_error = True\<rparr>"

definition report_mismatch :: InstallProgress where
  "report_mismatch =
    \<lparr>step = ''preparing'', progress = 90, message = ''almost'', is_complete = False,
     has_error = False\<rparr>"

text \<open>A session in which the probe, the profile fetch and the path fetch all succeed.\<close>

definition boot :: "event list" where
  "boot =
    [Mount, ProbeSettled (Inr ''/opt/IndexTTS''), SystemInfoSettled (Inr good_info),
     DefaultPathSettled (Inr ''/opt/IndexTTS'')]"

definition ready_state :: App where
  "ready_state = run boot initial"

text \<open>Start clicked, the call not yet settled.\<close>

definition starting_state :: App where
  "starting_state = dispatch ClickStart ready_state"

text \<open>Start accepted, the timer has fired once and its call is outstanding.\<close>

definition polling_state :: App where
  "polling_state = run [ClickStart, StartSettled (Inr ()), Tick 0] ready_state"


definition completed_state :: App where
  "completed_state = dispatch (ProgressSettled 0 (Inr report_100)) polling_state"

definition failed_state :: App where
  "failed_state = dispatch (ProgressSettled 0 (Inr report_failed)) polling_state"

text \<open>After the failure, start is clicked again and accepted.\<close>

definition restarted_state :: App where
  "restarted_state = run [ClickStart, StartSettled (Inr ())] failed_state"


text \<open>A session in which the profile fetch fails, followed by a click on start.\<close>

definition no_info_events :: "event list" where
  "no_info_events =
    [Mount, ProbeSettled (Inr ''/opt/IndexTTS''), SystemInfoSettled (Inl ''sysctl failed''),
     DefaultPathSettled (Inr ''/opt/IndexTTS''), ClickStart]"

section \<open>Properties\<close>

lemmas handler_defs =
  checkSystemInfo_call_def checkSystemInfo_settled_def checkEnvironment_call_def
  setDefaultPath_call_def setDefaultPath_settled_def checkEnvironment_settled_def
  startInstallation_call_def startInstallation_settled_def interval_callback_call_def
  interval_callback_settled_def reset_click_def

subsection \<open>The example states, computed\<close>

lemma good_info_status: "fst (getSystemStatus (Some good_info)) = ''good''"
  by (simp add: getSystemStatus_def collect_issues_def falsy_def good_info_def)

lemma ready_state_eq:
  "ready_state =
    \<lparr>systemInfo = Some good_info, loading = False, installing = False,
     isWebEnvironment = False, installProgress = idle_progress, error = None,
     installConfig =
       \<lparr>install_path = ''/opt/IndexTTS'', model_type = ''base'', use_gpu = False\<rparr>,
     mounted = True, calls = [GetDefaultInstallPath, GetSystemInfo, GetDefaultInstallPath],
     alerts = [], probe_pending = 0, path_pending = 0, info_pending = 0, start_pending = 0,
     poll_pending = [], intervals = [], next_interval = 0\<rparr>"
  by (simp add: ready_state_def boot_def initial_def handler_defs)

lemma starting_state_eq:
  "starting_state =
    ready_state\<lparr>installing := True,
      calls := calls ready_state @
        [StartInstallation
          \<lparr>install_path = ''/opt/IndexTTS'', model_type = ''base'', use_gpu = False\<rparr>],
      start_pending := 1\<rparr>"
  by (simp add: starting_state_def ready_state_eq handler_defs form_rendered_def
      start_disabled_def systemStatus_def good_info_status)

lemma polling_state_eq:
  "polling_state =
    ready_state\<lparr>installing := True,
      calls := calls ready_state @
        [StartInstallation
          \<lparr>install_path = ''/opt/IndexTTS'', model_type = ''base'', use_gpu = False\<rparr>,
         GetInstallationProgress],
      poll_pending := [0], intervals := [0], next_interval := 1\<rparr>"
  by (simp add: polling_state_def ready_state_eq handler_defs form_rendered_def
      start_disabled_def systemStatus_def good_info_status)


lemma completed_state_eq:
  "completed_state =
    polling_state\<lparr>installing := False, installProgress := report_100, poll_pending := [],
      intervals := []\<rparr>"
  by (simp add: completed_state_def polling_state_eq ready_state_eq handler_defs report_100_def)

lemma failed_state_eq:
  "failed_state =
    polling_state\<lparr>installing := False, installProgress := report_failed,
      error := Some (install_failed_prefix @ ''disk full''), poll_pending := [],
      intervals := []\<rparr>"
  by (simp add: failed_state_def polling_state_eq ready_state_eq handler_defs report_failed_def)


subsection \<open>Sequencing and the bookkeeping invariant\<close>


lemma consistent_initial: "consistent initial"
  by (simp add: consistent_def initial_def)

lemma set_take_drop: "set (take k xs @ drop (Suc k) xs) \<subseteq> set xs"
  by (auto dest: in_set_takeD in_set_dropD)

lemma consistent_dispatch: "consistent s \<Longrightarrow> consistent (dispatch e s)"
proof (cases e)
  case (ProgressSettled k r)
  assume c: "consistent s"
  show ?thesis
  proof (cases "k < length (poll_pending s)")
    case True
    from c have "list_all (\<lambda>t. t < next_interval s)
        (take k (poll_pending s) @ drop (Suc k) (poll_pending s))"
      using set_take_drop [of k "poll_pending s"] by (auto simp: consistent_def list_all_iff)
    with c show ?thesis using ProgressSettled True
      by (auto simp: consistent_def handler_defs Let_def list_all_iff split: sum.splits)
  next
    case False
    with c ProgressSettled show ?thesis by simp
  qed
next
  case (StartSettled r)
  assume "consistent s"
  then show ?thesis using StartSettled
    by (auto simp: consistent_def handler_defs list_all_iff less_Suc_eq split: sum.splits)
qed (auto simp: consistent_def handler_defs list_all_iff split: sum.splits)

lemma consistent_run: "consistent s \<Longrightarrow> consistent (run es s)"
  by (induction es arbitrary: s) (simp_all add: consistent_dispatch)

lemma reachable_consistent: "consistent (run es initial)"
  by (rule consistent_run [OF consistent_initial])










subsection \<open>The start button\<close>

text \<open>
  While \<^verbatim>\<open>installing\<close> is set (the start call is outstanding or the installation is
  being polled), and also in the web environment, without a system profile, or with the
  verdict \<^verbatim>\<open>error\<close>, a click on start issues no call and leaves the whole state as
  it was. \<^verbatim>\<open>startInstallation\<close> itself, entered in the web environment, shows an
  alert and does nothing else.
\<close>

lemma start_click_ignored_when_disabled:
  "(installing s \<or> isWebEnvironment s \<or> systemInfo s = None
      \<or> fst (systemStatus s) = ''error'' \<longrightarrow> dispatch ClickStart s = s)
   \<and> (isWebEnvironment s \<longrightarrow>
        startInstallation_call s = s\<lparr>alerts := alerts s @ [web_alert]\<rparr>)"
  by (auto simp: form_rendered_def start_disabled_def startInstallation_call_def)

lemma start_click_ignored_while_polling:
  "installing polling_state \<and> dispatch ClickStart polling_state = polling_state"
  using start_click_ignored_when_disabled [of polling_state] by (simp add: polling_state_eq)

text \<open>
  Claim C1 at the state reached by a finished report: the callback that stored the report
  has cleared \<^verbatim>\<open>installing\<close>, so the progress view with its completion panel is
  gone and the form with the start button is rendered again; a click on start is accepted
  there: it sets \<^verbatim>\<open>installing\<close> and issues a second \<^verbatim>\<open>start_installation\<close>
  call.
\<close>

theorem start_accepted_after_completion:
  "is_complete (installProgress completed_state) \<and> \<not> installing completed_state
   \<and> form_rendered completed_state \<and> \<not> start_disabled completed_state
   \<and> installing (dispatch ClickStart completed_state)
   \<and> calls (dispatch ClickStart completed_state) =
       calls completed_state @ [StartInstallation (installConfig completed_state)]"
  by (simp add: completed_state_eq polling_state_eq ready_state_eq report_100_def
      form_rendered_def start_disabled_def systemStatus_def good_info_status
      startInstallation_call_def)

subsection \<open>The compatibility verdict\<close>

lemma issues_distinct: "distinct [issue_memory, issue_disk, issue_python, issue_git]"
  by (simp add: issue_memory_def issue_disk_def issue_python_def issue_git_def)

text \<open>
  Claim C2, as stated, fails: a profile whose Python version is present but is the empty
  string, and which passes the other three checks, gets the Python diagnostic and the
  verdict \<^verbatim>\<open>warning\<close>, where the claim gives no diagnostic and \<^verbatim>\<open>good\<close>.
\<close>

theorem empty_version_counts_as_missing:
  "python_version empty_python_info \<noteq> None \<and> git_version empty_python_info \<noteq> None
   \<and> \<not> total_memory empty_python_info < 8 * 2 ^ 30
   \<and> \<not> available_disk_space empty_python_info < 10 * 2 ^ 30
   \<and> collect_issues empty_python_info = [issue_python]
   \<and> fst (getSystemStatus (Some empty_python_info)) = ''warning''"
  by (simp add: good_info_def empty_python_info_def getSystemStatus_def collect_issues_def
      falsy_def)

text \<open>
  Claim C2, amended: without a profile the verdict is \<^verbatim>\<open>unknown\<close>. With a profile,
  the diagnostics are, in this order and once each, those of the failing checks among:
  total memory below 8 GiB, available disk space below 10 GiB, Python version absent or
  empty, Git version absent or empty. No diagnostic gives \<^verbatim>\<open>good\<close>, one or two give
  \<^verbatim>\<open>warning\<close>, three or four give \<^verbatim>\<open>error\<close>.
\<close>

theorem getSystemStatus_verdict:
  "getSystemStatus None = (''unknown'', unknown_message)
   \<and> collect_issues info =
       (if total_memory info < 8 * 2 ^ 30 then [issue_memory] else [])
       @ (if available_disk_space info < 10 * 2 ^ 30 then [issue_disk] else [])
       @ (if python_version info = None \<or> python_version info = Some []
          then [issue_python] else [])
       @ (if git_version info = None \<or> git_version info = Some [] then [issue_git] else [])
   \<and> distinct (collect_issues info)
   \<and> (let n = length (collect_issues info) in
        (n = 0 \<longrightarrow> getSystemStatus (Some info) = (''good'', good_message))
        \<and> (1 \<le> n \<and> n \<le> 2 \<longrightarrow> fst (getSystemStatus (Some info)) = ''warning'')
        \<and> (3 \<le> n \<longrightarrow> fst (getSystemStatus (Some info)) = ''error''))"
proof -
  have a: "getSystemStatus None = (''unknown'', unknown_message)"
    by (simp add: getSystemStatus_def)
  have b: "collect_issues info =
       (if total_memory info < 8 * 2 ^ 30 then [issue_memory] else [])
       @ (if available_disk_space info < 10 * 2 ^ 30 then [issue_disk] else [])
       @ (if python_version info = None \<or> python_version info = Some []
          then [issue_python] else [])
       @ (if git_version info = None \<or> git_version info = Some [] then [issue_git] else [])"
    by (simp add: collect_issues_def falsy_def split: option.splits)
  have c: "distinct (collect_issues info)"
    using issues_distinct unfolding b by auto
  have d: "(let n = length (collect_issues info) in
        (n = 0 \<longrightarrow> getSystemStatus (Some info) = (''good'', good_message))
        \<and> (1 \<le> n \<and> n \<le> 2 \<longrightarrow> fst (getSystemStatus (Some info)) = ''warning'')
        \<and> (3 \<le> n \<longrightarrow> fst (getSystemStatus (Some info)) = ''error''))"
    by (simp add: getSystemStatus_def Let_def)
  from a b c d show ?thesis by blast
qed

text \<open>Witness for C2: one profile with one failing check and one with none.\<close>

theorem getSystemStatus_verdict_witness:
  "collect_issues empty_python_info = [issue_python]
   \<and> fst (getSystemStatus (Some empty_python_info)) = ''warning''
   \<and> getSystemStatus (Some good_info) = (''good'', good_message)"
  using getSystemStatus_verdict [of empty_python_info] getSystemStatus_verdict [of good_info]
  by (simp add: good_info_def empty_python_info_def Let_def)

subsection \<open>A progress call settles\<close>







subsection \<open>The start call settles\<close>

text \<open>
  Claim C5, as stated, fails: when the start call is rejected with the text
  \<^verbatim>\<open>permission denied\<close>, the error shown is not that text as it stands.
\<close>

theorem start_error_message_prefixed:
  "error (dispatch (StartSettled (Inl ''permission denied'')) starting_state)
     \<noteq> Some ''permission denied''"
  by (simp add: starting_state_eq startInstallation_settled_def start_failed_prefix_def)

text \<open>
  Claim C5, amended: when the outstanding start call is rejected, \<^verbatim>\<open>installing\<close> is
  cleared, no interval is armed and no call is issued (with no interval armed before, no
  timer can fire), the report is left as it was, and the error shown is the fixed prefix
  for a failed start followed by the host's failure message, unaltered.
\<close>

theorem start_call_rejected:
  assumes "0 < start_pending s"
  shows "let s' = dispatch (StartSettled (Inl err)) s in
    \<not> installing s' \<and> error s' = Some (start_failed_prefix @ err)
    \<and> intervals s' = intervals s \<and> next_interval s' = next_interval s
    \<and> calls s' = calls s \<and> installProgress s' = installProgress s
    \<and> (intervals s = [] \<longrightarrow> (\<forall>t. dispatch (Tick t) s' = s'))"
  using assms by (simp add: startInstallation_settled_def Let_def)

text \<open>Witness for C5: the start call of the starting state is rejected.\<close>

theorem start_call_rejected_witness:
  "0 < start_pending starting_state
   \<and> \<not> installing (dispatch (StartSettled (Inl ''permission denied'')) starting_state)
   \<and> error (dispatch (StartSettled (Inl ''permission denied'')) starting_state)
       = Some (start_failed_prefix @ ''permission denied'')
   \<and> polls (dispatch (StartSettled (Inl ''permission denied'')) starting_state) = 0
   \<and> (\<forall>t. dispatch (Tick t) (dispatch (StartSettled (Inl ''permission denied'')) starting_state)
          = dispatch (StartSettled (Inl ''permission denied'')) starting_state)"
proof -
  have p: "0 < start_pending starting_state"
    by (simp add: starting_state_eq)
  have i: "intervals starting_state = []" "polls starting_state = 0"
    by (simp_all add: starting_state_eq ready_state_eq polls_def)
  from start_call_rejected [OF p, unfolded Let_def, of "''permission denied''"]
  show ?thesis using p i by (simp add: polls_def)
qed

subsection \<open>The scenario with two progress reports\<close>






subsection \<open>The reset button\<close>

lemma reset_click_result:
  "reset_rendered s \<Longrightarrow>
    dispatch ClickReset s = s\<lparr>installing := False, installProgress := idle_progress\<rparr>"
  by (simp add: reset_click_def)

lemma reset_needs_error: "\<not> has_error (installProgress s) \<Longrightarrow> dispatch ClickReset s = s"
  by (simp add: reset_rendered_def)

text \<open>
  The failure panel is part of the progress view, which is rendered while
  \<^verbatim>\<open>installing\<close> is set; but the callback that stores a failed report clears
  \<^verbatim>\<open>installing\<close> in the same step. The reset button is next rendered when an
  installation is started again, while the stale failed report is still the current one:
  then the new installation is being polled, and a click on reset clears
  \<^verbatim>\<open>installing\<close> and leaves the interval armed.
\<close>

lemma reset_while_polling:
  "installing restarted_state \<and> intervals restarted_state = [1]
   \<and> reset_rendered restarted_state
   \<and> \<not> installing (dispatch ClickReset restarted_state)
   \<and> intervals (dispatch ClickReset restarted_state) = [1]
   \<and> installProgress (dispatch ClickReset restarted_state) = idle_progress"
  by (simp add: restarted_state_def failed_state_eq polling_state_eq ready_state_eq
      reset_rendered_def report_failed_def form_rendered_def start_disabled_def systemStatus_def
      good_info_status startInstallation_call_def startInstallation_settled_def reset_click_def)

text \<open>
  Claim C7 at the state reached by a failed report: the report has \<^verbatim>\<open>has_error\<close>,
  \<^verbatim>\<open>installing\<close> is cleared and no interval is armed, yet the reset button is not
  rendered; a reset changes nothing, and the failed report stays the current one instead
  of the initial report.
\<close>

theorem reset_unavailable_after_failure:
  "has_error (installProgress failed_state) \<and> \<not> installing failed_state
   \<and> intervals failed_state = []
   \<and> \<not> reset_rendered failed_state
   \<and> dispatch ClickReset failed_state = failed_state
   \<and> installProgress (dispatch ClickReset failed_state) \<noteq> idle_progress"
  by (simp add: failed_state_eq polling_state_eq ready_state_eq reset_rendered_def
      report_failed_def idle_progress_def)

subsection \<open>The display of the five steps\<close>

text \<open>
  Claim C8: for every report the five steps are rendered, in their fixed order; the step
  at index \<open>i\<close> is active exactly when its key is the report's \<^verbatim>\<open>step\<close>, and
  completed exactly when the report's \<^verbatim>\<open>progress\<close> is greater than
  \<open>(i / 5) * 100\<close>. The two flags are computed from the report alone, independently
  of each other, and the computation has no failing case.
\<close>

theorem render_steps_flags:
  "length (render_steps p) = 5
   \<and> map fst (render_steps p) = step_keys
   \<and> (\<forall>i < 5. render_steps p ! i =
         (step_keys ! i, step p = step_keys ! i, progress p > (of_nat i / 5) * 100))"
proof -
  have e: "enumerate 0 step_keys =
      [(0, ''preparing''), (1, ''downloading''), (2, ''models''), (3, ''dependencies''),
       (4, ''configuring'')]"
    by (simp add: step_keys_def)
  have five: "\<And>i. i < (5::nat) \<Longrightarrow> i = 0 \<or> i = 1 \<or> i = 2 \<or> i = 3 \<or> i = 4"
    by arith
  show ?thesis
    unfolding render_steps_def e
    by (auto simp: step_keys_def isActive_def isCompleted_def dest!: five)
qed

text \<open>
  Witness for C8: a report at 90 percent that names the first step shows that step both
  active and completed; the initial report shows it neither.
\<close>

theorem render_steps_flags_witness:
  "(0::nat) < 5 \<and> render_steps report_mismatch ! 0 = (''preparing'', True, True)
   \<and> (4::nat) < 5 \<and> render_steps report_mismatch ! 4 = (''configuring'', False, True)
   \<and> render_steps idle_progress ! 0 = (''preparing'', False, False)"
  using render_steps_flags [of report_mismatch] render_steps_flags [of idle_progress]
  by (simp add: report_mismatch_def idle_progress_def step_keys_def)

subsection \<open>The model selector\<close>

lemma model_type_dispatch:
  "model_type (installConfig (dispatch e s)) = model_type (installConfig s)
   \<or> (\<exists>v. e = ChangeModelType v \<and> model_type (installConfig (dispatch e s)) = option_value v)"
  by (cases e) (auto simp: handler_defs Let_def split: sum.splits)

text \<open>The model type is the one the state started with until the selector is used.\<close>

lemma model_type_run:
  "model_type (installConfig (run es s)) = model_type (installConfig s)
   \<or> model_type (installConfig (run es s)) \<in> set (map option_value [Standard, Large, Small])"
proof (induction es arbitrary: s)
  case Nil
  show ?case by simp
next
  case (Cons e es)
  have opts: "\<And>v. option_value v \<in> set (map option_value [Standard, Large, Small])"
    subgoal for v by (cases v) simp_all
    done
  from model_type_dispatch [of e s] Cons.IH [of "dispatch e s"] opts
  show ?case by (simp only: run.simps) metis
qed

text \<open>
  Claim C9 at the initial state: the model type is \<^verbatim>\<open>base\<close>, which is the value of
  none of the three options of the selector, and a start clicked without touching the
  selector submits it to \<^verbatim>\<open>start_installation\<close>.
\<close>

theorem default_model_type_not_an_option:
  "model_type (installConfig initial) = ''base''
   \<and> model_type (installConfig initial) \<notin> set (map option_value [Standard, Large, Small])
   \<and> calls starting_state = calls ready_state @
       [StartInstallation
         \<lparr>install_path = ''/opt/IndexTTS'', model_type = ''base'', use_gpu = False\<rparr>]"
  by (simp add: initial_def starting_state_eq)

subsection \<open>No start without a system profile\<close>

lemma no_info_dispatch:
  assumes "systemInfo s = None" and "\<forall>c. StartInstallation c \<notin> set (calls s)"
    and "\<forall>info. e \<noteq> SystemInfoSettled (Inr info)"
  shows "systemInfo (dispatch e s) = None
    \<and> (\<forall>c. StartInstallation c \<notin> set (calls (dispatch e s)))"
  using assms
  by (cases e) (auto simp: handler_defs Let_def start_disabled_def split: sum.splits)

lemma no_info_run:
  assumes "systemInfo s = None" and "\<forall>c. StartInstallation c \<notin> set (calls s)"
    and "\<forall>e \<in> set es. \<forall>info. e \<noteq> SystemInfoSettled (Inr info)"
  shows "systemInfo (run es s) = None \<and> (\<forall>c. StartInstallation c \<notin> set (calls (run es s)))"
  using assms
proof (induction es arbitrary: s)
  case Nil
  then show ?case by simp
next
  case (Cons e es)
  from Cons.prems have "\<forall>info. e \<noteq> SystemInfoSettled (Inr info)" by simp
  from no_info_dispatch [OF Cons.prems(1,2) this] Cons.prems(3) Cons.IH [of "dispatch e s"]
  show ?case by simp
qed

text \<open>
  Claim C10: the start button is disabled exactly when there is no system profile, or the
  verdict is \<^verbatim>\<open>error\<close>, or the environment is the web one, or \<^verbatim>\<open>installing\<close> is
  set. Without a profile the verdict is \<^verbatim>\<open>unknown\<close>, the button is disabled and a
  click changes nothing. In a session in which no profile fetch has succeeded, there is
  no profile and no \<^verbatim>\<open>start_installation\<close> call has been issued.
\<close>

theorem start_needs_system_info:
  "(start_disabled s \<longleftrightarrow>
      systemInfo s = None \<or> fst (getSystemStatus (systemInfo s)) = ''error''
      \<or> isWebEnvironment s \<or> installing s)
   \<and> (systemInfo s = None \<longrightarrow>
        systemStatus s = (''unknown'', []) \<and> start_disabled s \<and> dispatch ClickStart s = s)
   \<and> ((\<forall>e \<in> set es. \<forall>info. e \<noteq> SystemInfoSettled (Inr info)) \<longrightarrow>
        systemInfo (run es initial) = None
        \<and> (\<forall>c. StartInstallation c \<notin> set (calls (run es initial))))"
proof -
  have a: "start_disabled s \<longleftrightarrow>
      systemInfo s = None \<or> fst (getSystemStatus (systemInfo s)) = ''error''
      \<or> isWebEnvironment s \<or> installing s"
    by (auto simp: start_disabled_def systemStatus_def)
  have b: "systemInfo s = None \<longrightarrow>
        systemStatus s = (''unknown'', []) \<and> start_disabled s \<and> dispatch ClickStart s = s"
    by (simp add: start_disabled_def systemStatus_def)
  have i: "systemInfo initial = None" "\<forall>c. StartInstallation c \<notin> set (calls initial)"
    by (simp_all add: initial_def)
  have c: "(\<forall>e \<in> set es. \<forall>info. e \<noteq> SystemInfoSettled (Inr info)) \<longrightarrow>
        systemInfo (run es initial) = None
        \<and> (\<forall>c. StartInstallation c \<notin> set (calls (run es initial)))"
    using no_info_run [OF i, of es] by blast
  from a b c show ?thesis by blast
qed

text \<open>
  Witness for C10: the initial state, and a session in which the profile fetch fails and
  start is clicked.
\<close>

theorem start_needs_system_info_witness:
  "systemInfo initial = None \<and> start_disabled initial \<and> dispatch ClickStart initial = initial
   \<and> \<not> (\<exists>info. SystemInfoSettled (Inr info) \<in> set no_info_events)
   \<and> ClickStart \<in> set no_info_events
   \<and> (\<forall>c. StartInstallation c \<notin> set (calls (run no_info_events initial)))"
proof -
  have i: "systemInfo initial = None"
    by (simp add: initial_def)
  have e: "\<forall>e \<in> set no_info_events. \<forall>info. e \<noteq> SystemInfoSettled (Inr info)"
    by (simp add: no_info_events_def)
  have k: "ClickStart \<in> set no_info_events"
    by (simp add: no_info_events_def)
  from start_needs_system_info [of initial no_info_events] i e k show ?thesis by blast
qed

end
